theory Spec2Isabelle
  imports Complex_Main
begin

section \<open>Data model\<close>

text \<open>
  The two pages of the repository read decoded JSON with \<^verbatim>\<open>d.get(key, default)\<close>.
  A JSON object with a known set of members is a record whose fields are options:
  \<open>None\<close> is a member that is absent, so that every default of the source is a
  visible \<open>case\<close> of the model. Timestamps are Python integers (seconds since the
  epoch). The other JSON numbers (area, confidences) are only copied by the code, never
  computed with; they are the rationals they denote. Strings are ASCII.
\<close>

type_synonym number = rat

record crop_prediction =
  crop_1 :: "string option"
  conf_1 :: "number option"
  crop_2 :: "string option"
  conf_2 :: "number option"
  crop_3 :: "string option"
  conf_3 :: "number option"

record prediction =
  start_timestamp_sec :: "int option"
  end_timestamp_sec :: "int option"
  crop_prediction :: "crop_prediction option"

record properties =
  area_sq_m :: "number option"
  alu_type :: "string option"
  class_confidence :: "number option"
  monitoring_prediction :: "prediction list option"

record feature =
  feature_id :: "string option"
  properties :: "properties option"

text \<open>
  A decoded feature collection: the member \<^verbatim>\<open>features\<close> of the GeoJSON object,
  and the members that the code does not read, as pairs of a name and a raw text.
  Python takes a dict for true when it has at least one member.
\<close>

record geojson =
  features :: "feature list option"
  geojson_others :: "(string \<times> string) list"

definition truthy_geojson :: "geojson \<Rightarrow> bool" where
  "truthy_geojson g = (features g \<noteq> None \<or> geojson_others g \<noteq> [])"

text \<open>\<^verbatim>\<open>d.get(key, default)\<close> on a member that may be absent.\<close>

definition get_or :: "'a option \<Rightarrow> 'a \<Rightarrow> 'a" where
  "get_or v d = (case v of None \<Rightarrow> d | Some x \<Rightarrow> x)"

text \<open>The empty dict \<^verbatim>\<open>{}\<close> that \<^verbatim>\<open>.get\<close> falls back to: no member is present.\<close>

definition no_properties :: properties where
  "no_properties =
     \<lparr>area_sq_m = None, alu_type = None, class_confidence = None, monitoring_prediction = None\<rparr>"

definition no_crop_prediction :: crop_prediction where
  "no_crop_prediction =
     \<lparr>crop_1 = None, conf_1 = None, crop_2 = None, conf_2 = None, crop_3 = None, conf_3 = None\<rparr>"

text \<open>\<^verbatim>\<open>feature.get("properties", {}).get("monitoring_prediction", [])\<close>\<close>

definition predictions_of :: "feature \<Rightarrow> prediction list" where
  "predictions_of feature =
     (let props = get_or (properties feature) no_properties
      in get_or (monitoring_prediction props) [])"

definition start_of :: "prediction \<Rightarrow> int" where
  "start_of p = get_or (start_timestamp_sec p) 0"

definition end_of :: "prediction \<Rightarrow> int" where
  "end_of p = get_or (end_timestamp_sec p) 0"

section \<open>Crop colours\<close>

definition CROP_COLORS :: "(string \<times> string) list" where
  "CROP_COLORS =
    [(''NO_PREDICTION'', ''#CCCCCC''),
     (''UNKNOWN_CROP'', ''#999999''),
     (''BAJRA'', ''#8B4513''),
     (''CHILLI'', ''#FF0000''),
     (''CORN'', ''#FFD700''),
     (''COTTON'', ''#FFFFFF''),
     (''GRAM'', ''#DEB887''),
     (''GROUNDNUT'', ''#CD853F''),
     (''MUSTARD'', ''#FFFF00''),
     (''RICE'', ''#90EE90''),
     (''SORGHUM'', ''#A0522D''),
     (''SOYBEANS'', ''#228B22''),
     (''SUGARCANE'', ''#00CED1''),
     (''WHEAT'', ''#F4A460'')]"

text \<open>\<^verbatim>\<open>str.upper()\<close> on ASCII: the letters a to z move to A to Z, every other
  character stays.\<close>

definition upper_char :: "char \<Rightarrow> char" where
  "upper_char c =
     (case map_of (zip ''abcdefghijklmnopqrstuvwxyz'' ''ABCDEFGHIJKLMNOPQRSTUVWXYZ'') c of
        None \<Rightarrow> c
      | Some u \<Rightarrow> u)"

definition upper :: "string \<Rightarrow> string" where
  "upper s = map upper_char s"

text \<open>\<^verbatim>\<open>s.replace(" ", "_")\<close>: both strings are one character long.\<close>

definition replace_space :: "string \<Rightarrow> string" where
  "replace_space s = map (\<lambda>c. if c = CHR '' '' then CHR ''_'' else c) s"

definition get_crop_color :: "string \<Rightarrow> string" where
  "get_crop_color crop_name =
     (let crop_upper = replace_space (upper crop_name)
      in case map_of CROP_COLORS crop_upper of None \<Rightarrow> ''#666666'' | Some c \<Rightarrow> c)"

section \<open>Formatting\<close>

text \<open>\<^verbatim>\<open>str(n)\<close> for a Python integer, as the f-string \<^verbatim>\<open>f"{start_ts}_{end_ts}"\<close> uses it.\<close>

fun str_nat :: "nat \<Rightarrow> string" where
  "str_nat n =
     (if n < 10 then [''0123456789'' ! n]
      else str_nat (n div 10) @ [''0123456789'' ! (n mod 10)])"

declare str_nat.simps [simp del]

definition str_int :: "int \<Rightarrow> string" where
  "str_int i = (if i < 0 then CHR ''-'' # str_nat (nat (- i)) else str_nat (nat i))"

text \<open>
  \<^verbatim>\<open>datetime.fromtimestamp(timestamp).strftime("%B %Y")\<close> belongs to the standard
  library and reads the time zone and the locale of the process. The functions below take
  it as the parameter \<open>strftime\<close>, total on the timestamps the page receives.
  \<^verbatim>\<open>if timestamp and timestamp > 0\<close> is false for \<^verbatim>\<open>None\<close>, for zero and for a
  negative number.
\<close>

definition timestamp_to_month_year :: "(int \<Rightarrow> string) \<Rightarrow> int option \<Rightarrow> string" where
  "timestamp_to_month_year strftime timestamp =
     (case timestamp of
        None \<Rightarrow> ''N/A''
      | Some t \<Rightarrow> if t \<noteq> 0 \<and> t > 0 then strftime t else ''N/A'')"

section \<open>The time-period selector\<close>

record period =
  period_key :: string
  label :: string
  start_ts :: int
  end_ts :: int

text \<open>
  The state of the two nested loops of \<^verbatim>\<open>get_latest_time_period\<close> is the pair
  \<^verbatim>\<open>(latest_period, max_timestamp)\<close>; \<open>scan_prediction\<close> is the body of the inner
  loop, \<open>scan_feature\<close> the body of the outer one.
\<close>

definition scan_prediction ::
  "(int \<Rightarrow> string) \<Rightarrow> period option \<times> int \<Rightarrow> prediction \<Rightarrow> period option \<times> int" where
  "scan_prediction strftime st pred =
     (let latest_period = fst st;
          max_timestamp = snd st;
          start = get_or (start_timestamp_sec pred) 0;
          end = get_or (end_timestamp_sec pred) 0
      in if start > max_timestamp \<and> start > 0 \<and> end > 0
         then (Some \<lparr>period_key = str_int start @ ''_'' @ str_int end,
                      label = timestamp_to_month_year strftime (Some start) @ '' - '' @
                              timestamp_to_month_year strftime (Some end),
                      start_ts = start,
                      end_ts = end\<rparr>,
               start)
         else (latest_period, max_timestamp))"

definition scan_feature ::
  "(int \<Rightarrow> string) \<Rightarrow> period option \<times> int \<Rightarrow> feature \<Rightarrow> period option \<times> int" where
  "scan_feature strftime st feature = foldl (scan_prediction strftime) st (predictions_of feature)"

definition get_latest_time_period :: "(int \<Rightarrow> string) \<Rightarrow> feature list \<Rightarrow> period option" where
  "get_latest_time_period strftime fs = fst (foldl (scan_feature strftime) (None, 0) fs)"

text \<open>The words of the specification: a prediction is valid when both of its timestamps
  are strictly positive; the predictions of a list of features, in the order of the scan.\<close>

definition valid_prediction :: "prediction \<Rightarrow> bool" where
  "valid_prediction p = (start_of p > 0 \<and> end_of p > 0)"

definition all_predictions :: "feature list \<Rightarrow> prediction list" where
  "all_predictions fs = concat (map predictions_of fs)"

text \<open>What the two loop variables hold after the predictions \<open>ps\<close> have been scanned.\<close>

definition scan_inv :: "(int \<Rightarrow> string) \<Rightarrow> prediction list \<Rightarrow> period option \<times> int \<Rightarrow> bool" where
  "scan_inv fmt ps st =
     ((\<forall>q \<in> set ps. valid_prediction q \<longrightarrow> start_of q \<le> snd st) \<and>
      (case fst st of
         None \<Rightarrow> snd st = 0 \<and> (\<forall>q \<in> set ps. \<not> valid_prediction q)
       | Some per \<Rightarrow>
           \<exists>p \<in> set ps. valid_prediction p \<and> start_of p = snd st \<and>
             per = \<lparr>period_key = str_int (start_of p) @ ''_'' @ str_int (end_of p),
                    label = timestamp_to_month_year fmt (Some (start_of p)) @ '' - '' @
                            timestamp_to_month_year fmt (Some (end_of p)),
                    start_ts = start_of p, end_ts = end_of p\<rparr>))"

section \<open>CSV export\<close>

record csv_row =
  Field_ID :: string
  Area_sqm :: number
  ALU_Type :: string
  Class_Confidence :: number
  Season_Start :: string
  Season_End :: string
  Primary_Crop :: string
  Primary_Confidence :: number
  Secondary_Crop :: string
  Secondary_Confidence :: number
  Tertiary_Crop :: string
  Tertiary_Confidence :: number

text \<open>The dict built in the inner loop of \<^verbatim>\<open>prepare_csv_data\<close> for one feature and one
  of its predictions.\<close>

definition csv_row_of :: "(int \<Rightarrow> string) \<Rightarrow> feature \<Rightarrow> prediction \<Rightarrow> csv_row" where
  "csv_row_of strftime feature pred =
     (let props = get_or (properties feature) no_properties;
          crop_pred = get_or (crop_prediction pred) no_crop_prediction
      in \<lparr>Field_ID = get_or (feature_id feature) '''',
          Area_sqm = get_or (area_sq_m props) 0,
          ALU_Type = get_or (alu_type props) '''',
          Class_Confidence = get_or (class_confidence props) 0,
          Season_Start =
            timestamp_to_month_year strftime (Some (get_or (start_timestamp_sec pred) 0)),
          Season_End =
            timestamp_to_month_year strftime (Some (get_or (end_timestamp_sec pred) 0)),
          Primary_Crop = get_or (crop_1 crop_pred) '''',
          Primary_Confidence = get_or (conf_1 crop_pred) 0,
          Secondary_Crop = get_or (crop_2 crop_pred) '''',
          Secondary_Confidence = get_or (conf_2 crop_pred) 0,
          Tertiary_Crop = get_or (crop_3 crop_pred) '''',
          Tertiary_Confidence = get_or (conf_3 crop_pred) 0\<rparr>)"

text \<open>The rows appended to \<^verbatim>\<open>rows\<close>, in order; the data frame returned has one row for
  each element of the list.\<close>

definition prepare_csv_data :: "(int \<Rightarrow> string) \<Rightarrow> geojson \<Rightarrow> csv_row list" where
  "prepare_csv_data strftime geojson_data =
     concat (map (\<lambda>feature. map (csv_row_of strftime feature) (predictions_of feature))
                 (get_or (features geojson_data) []))"

text \<open>The (feature, prediction) pairs of a collection, in the words of the specification.\<close>

definition feature_prediction_pairs :: "geojson \<Rightarrow> (feature \<times> prediction) list" where
  "feature_prediction_pairs g =
     concat (map (\<lambda>f. map (Pair f) (predictions_of f)) (get_or (features g) []))"





section \<open>The outside world\<close>

text \<open>
  The response of the monitoring service is a JSON object; the page reads its member
  \<^verbatim>\<open>monitoredLandscape\<close> and, in it, the member \<^verbatim>\<open>geojson\<close>, a string that holds the
  serialized feature collection. The members that the page does not read are kept as
  pairs of a name and a raw text, since an object with any member is true for Python.
\<close>

record monitored_landscape =
  geojson :: "string option"

record api_response =
  monitoredLandscape :: "monitored_landscape option"
  response_others :: "(string \<times> string) list"

definition no_landscape :: monitored_landscape where
  "no_landscape = \<lparr>geojson = None\<rparr>"

definition truthy_response :: "api_response \<Rightarrow> bool" where
  "truthy_response r = (monitoredLandscape r \<noteq> None \<or> response_others r \<noteq> [])"

text \<open>
  What the \<^verbatim>\<open>try\<close> block of \<^verbatim>\<open>fetch_agri_data\<close> ends with: one of the exceptions of
  \<^verbatim>\<open>requests.exceptions.RequestException\<close> with its message (no connection, or
  \<^verbatim>\<open>raise_for_status\<close> on a status such as 403), or the decoded body.
\<close>

datatype http_result = RequestException string | Json api_response

datatype py_exception = ValueError string | OtherException string

text \<open>
  The libraries and the environment of the process, as parameters of the model:
  the formatter of dates, \<^verbatim>\<open>requests.post\<close> followed by \<^verbatim>\<open>raise_for_status\<close> and
  \<^verbatim>\<open>json\<close> (from the URL and the cell identifier of the body), \<^verbatim>\<open>json.loads\<close>
  (\<open>Inl\<close> is the message of the exception raised on a malformed text),
  \<^verbatim>\<open>s2sphere.CellId(n).to_lat_lng()\<close> in degrees (\<open>Inl\<close> is an exception raised by the
  library), and \<^verbatim>\<open>os.getenv("API_KEY_AGRI")\<close>.
\<close>

record world =
  strftime_month_year :: "int \<Rightarrow> string"
  requests_post :: "string \<Rightarrow> string \<Rightarrow> http_result"
  json_loads :: "string \<Rightarrow> string + geojson"
  to_lat_lng :: "int \<Rightarrow> py_exception + rat \<times> rat"
  API_KEY_AGRI :: "string option"

section \<open>The map renderer\<close>

text \<open>
  \<^verbatim>\<open>int(s)\<close> on an ASCII string: white space on both sides is dropped, one sign may
  come first, and the rest is decimal digits, where one underscore may stand between two
  digits. \<open>None\<close> is the \<^verbatim>\<open>ValueError\<close> of Python. The bound that recent
  versions of Python put on the number of digits is left out; the page reports a text
  beyond it like a text that is no number.
\<close>

definition is_space :: "char \<Rightarrow> bool" where
  "is_space c =
     (c \<in> set [CHR 0x09, CHR 0x0A, CHR 0x0B, CHR 0x0C, CHR 0x0D,
                CHR 0x1C, CHR 0x1D, CHR 0x1E, CHR 0x1F, CHR 0x20])"

definition strip :: "string \<Rightarrow> string" where
  "strip s = rev (dropWhile is_space (rev (dropWhile is_space s)))"

definition digit_val :: "char \<Rightarrow> nat option" where
  "digit_val c = map_of (zip ''0123456789'' [0, 1, 2, 3, 4, 5, 6, 7, 8, 9]) c"

fun digits_value :: "nat \<Rightarrow> string \<Rightarrow> nat option" where
  "digits_value acc [] = Some acc"
| "digits_value acc [c] =
     (case digit_val c of None \<Rightarrow> None | Some v \<Rightarrow> Some (10 * acc + v))"
| "digits_value acc (c # d # ds) =
     (case digit_val c of
        Some v \<Rightarrow> digits_value (10 * acc + v) (d # ds)
      | None \<Rightarrow>
          if c = CHR ''_''
          then (case digit_val d of None \<Rightarrow> None | Some v \<Rightarrow> digits_value (10 * acc + v) ds)
          else None)"

definition py_int :: "string \<Rightarrow> int option" where
  "py_int s =
     (let t = strip s;
          negative = (case t of [] \<Rightarrow> False | c # cs \<Rightarrow> c = CHR ''-'');
          body = (case t of [] \<Rightarrow> [] | c # cs \<Rightarrow> if c = CHR ''-'' \<or> c = CHR ''+'' then cs else t)
      in case body of
           [] \<Rightarrow> None
         | d # ds \<Rightarrow>
             (case digit_val d of
                None \<Rightarrow> None
              | Some v \<Rightarrow>
                  (case digits_value v ds of
                     None \<Rightarrow> None
                   | Some n \<Rightarrow> Some (if negative then - int n else int n))))"

text \<open>\<^verbatim>\<open>max(xs, key=k)\<close> on a list that is not empty: the first element whose key is
  the greatest. \<open>best\<close> is the greatest so far.\<close>

fun max_by :: "('a \<Rightarrow> int) \<Rightarrow> 'a \<Rightarrow> 'a list \<Rightarrow> 'a" where
  "max_by key best [] = best"
| "max_by key best (x # xs) = max_by key (if key x > key best then x else best) xs"

text \<open>
  The colour of the overlay of one feature, from the body of the loop of
  \<^verbatim>\<open>create_map\<close>: the primary crop of the prediction with the greatest start timestamp,
  \<^verbatim>\<open>NO_PREDICTION\<close> when the feature has no prediction or that prediction no primary crop.
\<close>

definition feature_color :: "feature \<Rightarrow> string" where
  "feature_color feature =
     (let predictions = predictions_of feature;
          crop_name =
            (case predictions of
               [] \<Rightarrow> ''NO_PREDICTION''
             | p # ps \<Rightarrow>
                 let latest_pred = max_by (\<lambda>p. get_or (start_timestamp_sec p) 0) p ps;
                     crop_pred = get_or (crop_prediction latest_pred) no_crop_prediction
                 in get_or (crop_1 crop_pred) ''NO_PREDICTION'')
      in get_crop_color crop_name)"

text \<open>
  The map keeps its centre and, for each feature in order, the overlay with its fill
  colour. The popup of an overlay and the legend are HTML texts of fixed shape that
  take no part in what is returned or reported; they are left out.
\<close>

record overlay =
  overlay_feature :: feature
  fillColor :: string

record folium_map =
  location :: "rat \<times> rat"
  overlays :: "overlay list"

text \<open>What a run of the page shows or does, in order: the messages of Streamlit, the
  request sent to the service, and the widgets of the display. The pictographs that open
  some messages are left out of the texts.\<close>

datatype effect =
    St_error string
  | St_warning string
  | St_success string
  | St_info string
  | Http_post string string
  | Download_csv "csv_row list" string
  | St_folium folium_map
  | Summary_statistics nat rat rat
  | Raw_response_viewer "api_response option"

definition create_map :: "world \<Rightarrow> geojson \<Rightarrow> string \<Rightarrow> folium_map option \<times> effect list" where
  "create_map w geojson_data cell_id_input =
     (let fs = get_or (features geojson_data) []
      in if fs = [] then (None, [St_warning ''No features found in the data.''])
         else
           (case (case py_int cell_id_input of
                    None \<Rightarrow> Inl (ValueError ''invalid literal for int() with base 10'')
                  | Some n \<Rightarrow> to_lat_lng w n) of
              Inl (ValueError e) \<Rightarrow>
                (None,
                 [St_error ''Invalid S2 Cell ID format. Please ensure it is a numeric ID.''])
            | Inl (OtherException e) \<Rightarrow>
                (None, [St_error (''Error calculating map center: '' @ e)])
            | Inr center \<Rightarrow>
                (Some \<lparr>location = center,
                        overlays =
                          map (\<lambda>feature. \<lparr>overlay_feature = feature,
                                           fillColor = feature_color feature\<rparr>) fs\<rparr>,
                 [])))"

section \<open>The page\<close>

record session_state =
  geojson_data :: "geojson option"
  latest_period :: "period option"
  raw_response :: "api_response option"

definition landscape_url :: "string \<Rightarrow> string" where
  "landscape_url api_key =
     ''https://agriculturalunderstanding.googleapis.com/v1:monitorLandscape?key='' @ api_key"

definition fetch_agri_data :: "world \<Rightarrow> string \<Rightarrow> string \<Rightarrow> api_response option \<times> effect list" where
  "fetch_agri_data w api_key cell_id =
     (let url = landscape_url api_key
      in case requests_post w url cell_id of
           RequestException e \<Rightarrow>
             (None, [Http_post url cell_id, St_error (''API Request Failed: '' @ e)])
         | Json body \<Rightarrow> (Some body, [Http_post url cell_id]))"

definition parse_geojson_data :: "world \<Rightarrow> api_response \<Rightarrow> geojson option \<times> effect list" where
  "parse_geojson_data w api_response =
     (let monitored_landscape = get_or (monitoredLandscape api_response) no_landscape;
          geojson_str = get_or (geojson monitored_landscape) ''{}''
      in case json_loads w geojson_str of
           Inl e \<Rightarrow> (None, [St_error (''Error parsing GeoJSON: '' @ e)])
         | Inr decoded \<Rightarrow> (Some decoded, []))"

text \<open>The block under \<^verbatim>\<open>if fetch_button\<close>: the new session state and what the block
  showed and did.\<close>

definition on_fetch :: "world \<Rightarrow> string \<Rightarrow> session_state \<Rightarrow> session_state \<times> effect list" where
  "on_fetch w s2_cell_id st =
     (let api_key = get_or (API_KEY_AGRI w) ''''
      in if api_key = '''' then (st, [St_error ''Please enter an API key.''])
         else
           (case fetch_agri_data w api_key s2_cell_id of
              (None, es) \<Rightarrow> (st, es)
            | (Some api_response, es) \<Rightarrow>
                if \<not> truthy_response api_response then (st, es)
                else
                  (let st1 = st\<lparr>raw_response := Some api_response\<rparr>
                   in case parse_geojson_data w api_response of
                        (None, es') \<Rightarrow> (st1, es @ es')
                      | (Some decoded, es') \<Rightarrow>
                          if \<not> truthy_geojson decoded then (st1, es @ es')
                          else
                            (let fs = get_or (features decoded) []
                             in (st1\<lparr>geojson_data := Some decoded,
                                      latest_period :=
                                        get_latest_time_period (strftime_month_year w) fs\<rparr>,
                                 es @ es' @
                                 [St_success (''Data fetched successfully! Found ''
                                    @ str_nat (length fs) @ '' fields.'')])))))"

text \<open>\<^verbatim>\<open>st.session_state.geojson_data and st.session_state.latest_period\<close>: a period is
  a dict of four members, true whenever it is there.\<close>

definition display_gate :: "session_state \<Rightarrow> bool" where
  "display_gate st =
     ((case geojson_data st of None \<Rightarrow> False | Some g \<Rightarrow> truthy_geojson g) \<and>
      latest_period st \<noteq> None)"

text \<open>The display below the handler. The statistics keep the numbers that the metrics
  format: the number of fields, the total area and the mean area.\<close>

definition initial_prompt :: string where
  "initial_prompt = ''Enter your API key and S2 Cell ID, then click 'Fetch Data' to begin.''"

definition display :: "world \<Rightarrow> string \<Rightarrow> session_state \<Rightarrow> effect list" where
  "display w s2_cell_id st =
     (case geojson_data st of
        None \<Rightarrow>
          [St_info initial_prompt]
      | Some g \<Rightarrow>
          if \<not> display_gate st
          then [St_info initial_prompt]
          else
            (let csv_data = prepare_csv_data (strftime_month_year w) g;
                 (folium_map, es) = create_map w g s2_cell_id;
                 fs = get_or (features g) [];
                 total_area =
                   sum_list (map (\<lambda>f. get_or (area_sq_m (get_or (properties f) no_properties)) 0) fs);
                 avg_area = (if fs \<noteq> [] then total_area / of_nat (length fs) else 0)
             in [St_info ''**Displaying Latest Season Data'',
                 Download_csv csv_data (''agri_landscape_'' @ s2_cell_id @ ''.csv'')]
                @ es
                @ (case folium_map of None \<Rightarrow> [] | Some m \<Rightarrow> [St_folium m])
                @ [Summary_statistics (length fs) total_area avg_area,
                   Raw_response_viewer (raw_response st)]))"

text \<open>One run of the script: the handler when the button was clicked, then the display
  of the session state as the handler left it.\<close>

definition run_page ::
  "world \<Rightarrow> string \<Rightarrow> bool \<Rightarrow> session_state \<Rightarrow> session_state \<times> effect list" where
  "run_page w s2_cell_id fetch_button st =
     (let (st', es) = (if fetch_button then on_fetch w s2_cell_id st else (st, []))
      in (st', es @ display w s2_cell_id st'))"

text \<open>The widgets that the display shows only behind its gate, and the requests.\<close>

fun data_widget :: "effect \<Rightarrow> bool" where
  "data_widget (Download_csv rows name) = True"
| "data_widget (St_folium m) = True"
| "data_widget (Summary_statistics n area mean) = True"
| "data_widget (Raw_response_viewer r) = True"
| "data_widget e = False"

fun is_http_post :: "effect \<Rightarrow> bool" where
  "is_http_post (Http_post url cell) = True"
| "is_http_post e = False"




section \<open>Concrete inputs\<close>

text \<open>
  A small collection of two fields. The first field has one prediction whose timestamps
  are both zero and whose primary crop is rice. The second one has a prediction of corn
  from 100 to 200 and a later one with no end and no crops. A third field has no
  prediction at all.
\<close>

definition rice_unstamped :: prediction where
  "rice_unstamped =
     \<lparr>start_timestamp_sec = Some 0, end_timestamp_sec = Some 0,
      crop_prediction =
        Some \<lparr>crop_1 = Some ''RICE'', conf_1 = Some (9 / 10), crop_2 = None, conf_2 = None,
              crop_3 = None, conf_3 = None\<rparr>\<rparr>"

definition corn_season :: prediction where
  "corn_season =
     \<lparr>start_timestamp_sec = Some 100, end_timestamp_sec = Some 200,
      crop_prediction =
        Some \<lparr>crop_1 = Some ''corn'', conf_1 = Some (3 / 4), crop_2 = Some ''WHEAT'',
              conf_2 = Some (1 / 4), crop_3 = None, conf_3 = None\<rparr>\<rparr>"

definition open_season :: prediction where
  "open_season =
     \<lparr>start_timestamp_sec = Some 300, end_timestamp_sec = None, crop_prediction = None\<rparr>"

definition field_a :: feature where
  "field_a =
     \<lparr>feature_id = Some ''a'',
      properties =
        Some \<lparr>area_sq_m = Some 12, alu_type = Some ''FIELD'', class_confidence = Some (1 / 2),
              monitoring_prediction = Some [rice_unstamped]\<rparr>\<rparr>"

definition field_b :: feature where
  "field_b =
     \<lparr>feature_id = None,
      properties =
        Some \<lparr>area_sq_m = None, alu_type = None, class_confidence = None,
              monitoring_prediction = Some [corn_season, open_season]\<rparr>\<rparr>"

definition field_c :: feature where
  "field_c = \<lparr>feature_id = Some ''c'', properties = None\<rparr>"

definition two_fields :: geojson where
  "two_fields = \<lparr>features = Some [field_a, field_b], geojson_others = [(''type'', ''FeatureCollection'')]\<rparr>"

definition stale_fields :: geojson where
  "stale_fields = \<lparr>features = Some [field_c, field_a], geojson_others = []\<rparr>"



definition good_response :: api_response where
  "good_response =
     \<lparr>monitoredLandscape = Some \<lparr>geojson = Some ''{two fields}''\<rparr>, response_others = []\<rparr>"

definition stale_response :: api_response where
  "stale_response =
     \<lparr>monitoredLandscape = Some \<lparr>geojson = Some ''{stale fields}''\<rparr>, response_others = []\<rparr>"

definition bare_response :: api_response where
  "bare_response = \<lparr>monitoredLandscape = Some \<lparr>geojson = None\<rparr>, response_others = []\<rparr>"

text \<open>
  A world for the examples: dates are printed as the number of seconds, the decoder knows
  the texts of the responses above and the empty object, every cell has its centre at the
  origin, and the key is set. \<open>service\<close> is what a request ends with.
\<close>

definition example_world :: "http_result \<Rightarrow> world" where
  "example_world service =
     \<lparr>strftime_month_year = str_int,
      requests_post = (\<lambda>url cell. service),
      json_loads =
        (\<lambda>s. if s = ''{two fields}'' then Inr two_fields
             else if s = ''{stale fields}'' then Inr stale_fields
             else if s = ''{}'' then Inr \<lparr>features = None, geojson_others = []\<rparr>
             else Inl ''Expecting property name enclosed in double quotes''),
      to_lat_lng = (\<lambda>n. Inr (0, 0)),
      API_KEY_AGRI = Some ''key''\<rparr>"

text \<open>A session that shows the two fields, fetched before.\<close>

definition shown_before :: session_state where
  "shown_before =
     \<lparr>geojson_data = Some two_fields,
      latest_period = get_latest_time_period str_int [field_a, field_b],
      raw_response = Some good_response\<rparr>"

definition fresh_session :: session_state where
  "fresh_session = \<lparr>geojson_data = None, latest_period = None, raw_response = None\<rparr>"

section \<open>Properties of the crop colours\<close>










section \<open>Properties of the time-period selector\<close>

lemma foldl_scan_feature:
  "foldl (scan_feature fmt) st fs = foldl (scan_prediction fmt) st (all_predictions fs)"
  by (induction fs arbitrary: st) (simp_all add: all_predictions_def scan_feature_def)

lemma scan_inv_step:
  assumes "scan_inv fmt ps st"
  shows "scan_inv fmt (ps @ [p]) (scan_prediction fmt st p)"
  using assms
  unfolding scan_inv_def scan_prediction_def valid_prediction_def start_of_def end_of_def Let_def
  by (cases st; cases "fst st") (auto split: option.splits)

lemma scan_inv_all: "scan_inv fmt ps (foldl (scan_prediction fmt) (None, 0) ps)"
proof (induction ps rule: rev_induct)
  case Nil
  show ?case by (simp add: scan_inv_def)
next
  case (snoc p ps)
  then show ?case using scan_inv_step by simp
qed

lemma get_latest_time_period_inv:
  "\<exists>m. scan_inv fmt (all_predictions fs) (get_latest_time_period fmt fs, m)"
proof -
  have "scan_inv fmt (all_predictions fs) (foldl (scan_feature fmt) (None, 0) fs)"
    using scan_inv_all [of fmt "all_predictions fs"] by (simp add: foldl_scan_feature)
  then show ?thesis
    unfolding get_latest_time_period_def by (metis prod.collapse)
qed

text \<open>
  C1. For every list of features, the selector returns null exactly when no prediction of
  any feature is valid (both timestamps strictly positive). Otherwise it returns the
  period of a valid prediction whose start timestamp is the greatest among the valid
  predictions of all features: the period carries that prediction's start and end
  timestamps, the label made of their two month/year texts, and the key made of the two
  numbers.
\<close>

theorem get_latest_time_period_max_valid:
  "(get_latest_time_period fmt fs = None \<longleftrightarrow>
      (\<forall>p \<in> set (all_predictions fs). \<not> valid_prediction p)) \<and>
   (\<forall>per. get_latest_time_period fmt fs = Some per \<longrightarrow>
      (\<exists>p \<in> set (all_predictions fs).
          valid_prediction p \<and>
          (\<forall>q \<in> set (all_predictions fs). valid_prediction q \<longrightarrow> start_of q \<le> start_of p) \<and>
          start_ts per = start_of p \<and> end_ts per = end_of p \<and>
          label per = timestamp_to_month_year fmt (Some (start_of p)) @ '' - '' @
                      timestamp_to_month_year fmt (Some (end_of p)) \<and>
          period_key per = str_int (start_of p) @ ''_'' @ str_int (end_of p)))"
proof -
  obtain m where inv: "scan_inv fmt (all_predictions fs) (get_latest_time_period fmt fs, m)"
    using get_latest_time_period_inv by blast
  show ?thesis
  proof (cases "get_latest_time_period fmt fs")
    case None
    with inv show ?thesis by (simp add: scan_inv_def)
  next
    case (Some per)
    with inv obtain p where p: "p \<in> set (all_predictions fs)" "valid_prediction p"
      "start_of p = m"
      "per = \<lparr>period_key = str_int (start_of p) @ ''_'' @ str_int (end_of p),
              label = timestamp_to_month_year fmt (Some (start_of p)) @ '' - '' @
                      timestamp_to_month_year fmt (Some (end_of p)),
              start_ts = start_of p, end_ts = end_of p\<rparr>"
      and le: "\<forall>q \<in> set (all_predictions fs). valid_prediction q \<longrightarrow> start_of q \<le> m"
      by (auto simp: scan_inv_def)
    have "\<exists>p \<in> set (all_predictions fs). valid_prediction p"
      using p by blast
    moreover have "\<exists>p \<in> set (all_predictions fs).
          valid_prediction p \<and>
          (\<forall>q \<in> set (all_predictions fs). valid_prediction q \<longrightarrow> start_of q \<le> start_of p) \<and>
          start_ts per = start_of p \<and> end_ts per = end_of p \<and>
          label per = timestamp_to_month_year fmt (Some (start_of p)) @ '' - '' @
                      timestamp_to_month_year fmt (Some (end_of p)) \<and>
          period_key per = str_int (start_of p) @ ''_'' @ str_int (end_of p)"
      using p le by (intro bexI [of _ p]) simp_all
    ultimately show ?thesis using Some by auto
  qed
qed

theorem get_latest_time_period_max_valid_witness:
  "get_latest_time_period str_int [field_a, field_b] =
     Some \<lparr>period_key = ''100_200'', label = ''100 - 200'', start_ts = 100, end_ts = 200\<rparr> \<and>
   (\<exists>p \<in> set (all_predictions [field_a, field_b]).
      valid_prediction p \<and>
      (\<forall>q \<in> set (all_predictions [field_a, field_b]).
         valid_prediction q \<longrightarrow> start_of q \<le> start_of p) \<and>
      start_of p = 100 \<and> end_of p = 200)"
proof -
  have e: "get_latest_time_period str_int [field_a, field_b] =
     Some \<lparr>period_key = ''100_200'', label = ''100 - 200'', start_ts = 100, end_ts = 200\<rparr>"
    by (simp add: get_latest_time_period_def scan_feature_def scan_prediction_def
        predictions_of_def get_or_def field_a_def field_b_def rice_unstamped_def
        corn_season_def open_season_def timestamp_to_month_year_def str_int_def
        str_nat.simps)
  show ?thesis
    using get_latest_time_period_max_valid [of str_int "[field_a, field_b]"] e by auto
qed

section \<open>Properties of the CSV export\<close>

lemma length_concat_pairs:
  "length (concat (map (\<lambda>f. map (g f) (h f)) fs)) = length (concat (map (\<lambda>f. map (Pair f) (h f)) fs))"
  by (induction fs) simp_all

text \<open>
  C4. For every parsed collection the export has one row for each (feature, prediction)
  pair, in the order of the pairs: the number of rows is the number of pairs, which is
  the sum over the features of the number of their predictions.
\<close>

theorem prepare_csv_data_row_count:
  "length (prepare_csv_data fmt g) = length (feature_prediction_pairs g) \<and>
   length (prepare_csv_data fmt g) =
     sum_list (map (\<lambda>f. length (predictions_of f)) (get_or (features g) [])) \<and>
   prepare_csv_data fmt g = map (\<lambda>(f, p). csv_row_of fmt f p) (feature_prediction_pairs g)"
proof -
  have rows: "prepare_csv_data fmt g = map (\<lambda>(f, p). csv_row_of fmt f p) (feature_prediction_pairs g)"
    unfolding prepare_csv_data_def feature_prediction_pairs_def
    by (induction "get_or (features g) []") (simp_all add: map_concat comp_def)
  have "length (feature_prediction_pairs g) =
          sum_list (map (\<lambda>f. length (predictions_of f)) (get_or (features g) []))"
    unfolding feature_prediction_pairs_def
    by (simp add: length_concat comp_def)
  with rows show ?thesis by simp
qed





section \<open>Properties of the map renderer\<close>









section \<open>Properties of the page\<close>

lemma get_or_simps: "get_or None d = d" "get_or (Some x) d = x"
  by (simp_all add: get_or_def)

lemma create_map_effects:
  "snd (create_map w g cid) = [] \<or>
   (\<exists>m. snd (create_map w g cid) = [St_warning m]) \<or>
   (\<exists>m. snd (create_map w g cid) = [St_error m])"
  by (simp add: create_map_def Let_def split: option.splits sum.splits py_exception.splits)

lemma create_map_no_post: "\<not> list_ex is_http_post (snd (create_map w g cid))"
  using create_map_effects [of w g cid] by auto

lemma display_no_post: "\<not> list_ex is_http_post (display w cid st)"
proof (cases "geojson_data st")
  case None
  then show ?thesis by (simp add: display_def)
next
  case (Some g)
  obtain m es where c: "create_map w g cid = (m, es)"
    by (cases "create_map w g cid")
  then have "\<not> list_ex is_http_post es"
    using create_map_no_post [of w g cid] by simp
  with Some c show ?thesis
    by (simp add: display_def Let_def split: option.splits)
qed

lemma display_closed: "\<not> display_gate st \<Longrightarrow> display w cid st = [St_info initial_prompt]"
  by (simp add: display_def display_gate_def split: option.splits)

lemma display_open: "display_gate st \<Longrightarrow> list_ex data_widget (display w cid st)"
  by (auto simp: display_def display_gate_def Let_def split: option.splits prod.splits)

text \<open>
  C5. When the environment variable of the key is absent or empty, a click on the button
  shows the error that asks for a key, leaves the session as it was, and the whole run of
  the page sends no request.
\<close>

theorem on_fetch_without_key:
  "API_KEY_AGRI w = None \<or> API_KEY_AGRI w = Some '''' \<Longrightarrow>
     on_fetch w cid st = (st, [St_error ''Please enter an API key.'']) \<and>
     run_page w cid True st = (st, St_error ''Please enter an API key.'' # display w cid st) \<and>
     \<not> list_ex is_http_post (snd (run_page w cid True st))"
proof -
  assume "API_KEY_AGRI w = None \<or> API_KEY_AGRI w = Some ''''"
  then have k: "get_or (API_KEY_AGRI w) '''' = ''''"
    by (auto simp: get_or_def)
  then have f: "on_fetch w cid st = (st, [St_error ''Please enter an API key.''])"
    by (simp add: on_fetch_def)
  then have r: "run_page w cid True st = (st, St_error ''Please enter an API key.'' # display w cid st)"
    by (simp add: run_page_def)
  show ?thesis
    using f r display_no_post [of w cid st] by simp
qed

theorem on_fetch_without_key_witness:
  "API_KEY_AGRI (example_world (Json good_response)\<lparr>API_KEY_AGRI := None\<rparr>) = None \<and>
   run_page (example_world (Json good_response)\<lparr>API_KEY_AGRI := None\<rparr>) ''12'' True fresh_session =
     (fresh_session, [St_error ''Please enter an API key.'', St_info initial_prompt])"
proof -
  have k: "API_KEY_AGRI (example_world (Json good_response)\<lparr>API_KEY_AGRI := None\<rparr>) = None"
    by simp
  have "display (example_world (Json good_response)\<lparr>API_KEY_AGRI := None\<rparr>) ''12'' fresh_session =
          [St_info initial_prompt]"
    by (simp add: display_def fresh_session_def)
  then show ?thesis
    using on_fetch_without_key
      [of "example_world (Json good_response)\<lparr>API_KEY_AGRI := None\<rparr>" "''12''" fresh_session] k
    by simp
qed







text \<open>An embedded text that is absent is decoded as the empty object: the raw response
  is replaced and nothing is reported but the request.\<close>

lemma on_fetch_absent_payload:
  "on_fetch (example_world (Json bare_response)) ''12'' shown_before =
     (shown_before\<lparr>raw_response := Some bare_response\<rparr>,
      [Http_post (landscape_url ''key'') ''12''])"
  by (simp add: on_fetch_def fetch_agri_data_def parse_geojson_data_def example_world_def
      get_or_def truthy_response_def bare_response_def truthy_geojson_def)

lemma on_fetch_no_valid:
  assumes "API_KEY_AGRI w = Some k" "k \<noteq> ''''"
    and "requests_post w (landscape_url k) cid = Json r" "truthy_response r"
    and "json_loads w (get_or (geojson (get_or (monitoredLandscape r) no_landscape)) ''{}'') = Inr g"
    and "truthy_geojson g"
    and "get_latest_time_period (strftime_month_year w) (get_or (features g) []) = None"
  shows "on_fetch w cid st =
           (\<lparr>geojson_data = Some g, latest_period = None, raw_response = Some r\<rparr>,
            [Http_post (landscape_url k) cid,
             St_success (''Data fetched successfully! Found '' @
                         str_nat (length (get_or (features g) [])) @ '' fields.'')])"
  using assms
  by (simp add: on_fetch_def fetch_agri_data_def parse_geojson_data_def Let_def get_or_simps)

lemma no_valid_latest:
  "filter valid_prediction (all_predictions fs) = [] \<Longrightarrow> get_latest_time_period fmt fs = None"
  using get_latest_time_period_inv [of fmt fs]
  by (cases "get_latest_time_period fmt fs") (auto simp: scan_inv_def filter_empty_conv)

text \<open>
  C10. The download of the CSV, the map, the statistics and the viewer of the raw response
  are in the display exactly when the session holds a feature collection that is true
  for Python and a period; otherwise the display is the initial prompt alone. So after a
  click whose request succeeds and whose payload parses to a collection with no valid
  prediction, the session holds the collection, the response and no period, and the run
  shows the request, the message of success of the handler, and then the initial prompt
  as the whole display.
\<close>

theorem display_gated:
  "(list_ex data_widget (display w cid st) \<longleftrightarrow>
      (\<exists>g. geojson_data st = Some g \<and> truthy_geojson g) \<and> latest_period st \<noteq> None) \<and>
   (\<not> list_ex data_widget (display w cid st) \<longrightarrow> display w cid st = [St_info initial_prompt]) \<and>
   (API_KEY_AGRI w = Some k \<and> k \<noteq> '''' \<and>
    requests_post w (landscape_url k) cid = Json r \<and> truthy_response r \<and>
    json_loads w (get_or (geojson (get_or (monitoredLandscape r) no_landscape)) ''{}'') = Inr g \<and>
    truthy_geojson g \<and>
    filter valid_prediction (all_predictions (get_or (features g) [])) = [] \<longrightarrow>
      run_page w cid True st =
        (\<lparr>geojson_data = Some g, latest_period = None, raw_response = Some r\<rparr>,
         [Http_post (landscape_url k) cid,
          St_success (''Data fetched successfully! Found '' @
                      str_nat (length (get_or (features g) [])) @ '' fields.''),
          St_info initial_prompt]))"
proof -
  have gate: "display_gate st \<longleftrightarrow>
      (\<exists>g. geojson_data st = Some g \<and> truthy_geojson g) \<and> latest_period st \<noteq> None"
    by (auto simp: display_gate_def split: option.splits)
  have closed: "\<not> display_gate st \<Longrightarrow> \<not> list_ex data_widget (display w cid st)"
    by (simp add: display_closed)
  have a: "list_ex data_widget (display w cid st) \<longleftrightarrow> display_gate st"
    using closed display_open [of st w cid] by blast
  have b: "\<not> list_ex data_widget (display w cid st) \<longrightarrow> display w cid st = [St_info initial_prompt]"
    using a display_closed [of st w cid] by simp
  have c: "run_page w cid True st =
        (\<lparr>geojson_data = Some g, latest_period = None, raw_response = Some r\<rparr>,
         [Http_post (landscape_url k) cid,
          St_success (''Data fetched successfully! Found '' @
                      str_nat (length (get_or (features g) [])) @ '' fields.''),
          St_info initial_prompt])"
    if h: "API_KEY_AGRI w = Some k" "k \<noteq> ''''"
      "requests_post w (landscape_url k) cid = Json r" "truthy_response r"
      "json_loads w (get_or (geojson (get_or (monitoredLandscape r) no_landscape)) ''{}'') = Inr g"
      "truthy_geojson g"
      "filter valid_prediction (all_predictions (get_or (features g) [])) = []"
  proof -
    have n: "get_latest_time_period (strftime_month_year w) (get_or (features g) []) = None"
      using h(7) by (rule no_valid_latest)
    have f: "on_fetch w cid st =
           (\<lparr>geojson_data = Some g, latest_period = None, raw_response = Some r\<rparr>,
            [Http_post (landscape_url k) cid,
             St_success (''Data fetched successfully! Found '' @
                         str_nat (length (get_or (features g) [])) @ '' fields.'')])"
      using h(1-6) n by (rule on_fetch_no_valid)
    have "\<not> display_gate \<lparr>geojson_data = Some g, latest_period = None, raw_response = Some r\<rparr>"
      by (simp add: display_gate_def)
    then have "display w cid \<lparr>geojson_data = Some g, latest_period = None, raw_response = Some r\<rparr> =
               [St_info initial_prompt]"
      by (rule display_closed)
    with f show ?thesis by (simp add: run_page_def)
  qed
  from a gate b c show ?thesis by blast
qed

theorem display_gated_witness:
  "API_KEY_AGRI (example_world (Json stale_response)) = Some ''key'' \<and>
   requests_post (example_world (Json stale_response)) (landscape_url ''key'') ''12'' =
     Json stale_response \<and>
   filter valid_prediction (all_predictions (get_or (features stale_fields) [])) = [] \<and>
   run_page (example_world (Json stale_response)) ''12'' True shown_before =
     (\<lparr>geojson_data = Some stale_fields, latest_period = None,
       raw_response = Some stale_response\<rparr>,
      [Http_post (landscape_url ''key'') ''12'',
       St_success ''Data fetched successfully! Found 2 fields.'',
       St_info initial_prompt]) \<and>
   \<not> list_ex data_widget (display (example_world (Json stale_response)) ''12''
       \<lparr>geojson_data = Some stale_fields, latest_period = None,
        raw_response = Some stale_response\<rparr>) \<and>
   list_ex data_widget (display (example_world (Json stale_response)) ''12'' shown_before)"
proof -
  have k: "API_KEY_AGRI (example_world (Json stale_response)) = Some ''key''"
    by (simp add: example_world_def)
  have p: "requests_post (example_world (Json stale_response)) (landscape_url ''key'') ''12'' =
           Json stale_response"
    by (simp add: example_world_def)
  have t: "truthy_response stale_response"
    by (simp add: truthy_response_def stale_response_def)
  have j: "json_loads (example_world (Json stale_response))
             (get_or (geojson (get_or (monitoredLandscape stale_response) no_landscape)) ''{}'') =
           Inr stale_fields"
    by (simp add: example_world_def stale_response_def get_or_def)
  have g: "truthy_geojson stale_fields"
    by (simp add: truthy_geojson_def stale_fields_def)
  have v: "filter valid_prediction (all_predictions (get_or (features stale_fields) [])) = []"
    by (simp add: stale_fields_def get_or_def all_predictions_def predictions_of_def
        field_a_def field_c_def no_properties_def rice_unstamped_def valid_prediction_def
        start_of_def end_of_def)
  have n: "str_nat (length (get_or (features stale_fields) [])) = ''2''"
    by (simp add: stale_fields_def get_or_def str_nat.simps)
  have l: "latest_period shown_before \<noteq> None"
    by (simp add: shown_before_def get_latest_time_period_def scan_feature_def
        scan_prediction_def predictions_of_def get_or_def field_a_def field_b_def
        rice_unstamped_def corn_season_def open_season_def)
  have s: "geojson_data shown_before = Some two_fields \<and> truthy_geojson two_fields"
    by (simp add: shown_before_def truthy_geojson_def two_fields_def)
  show ?thesis
    using display_gated [of "example_world (Json stale_response)" "''12''" shown_before
        "''key''" stale_response stale_fields]
      display_gated [of "example_world (Json stale_response)" "''12''"
        "\<lparr>geojson_data = Some stale_fields, latest_period = None,
          raw_response = Some stale_response\<rparr>"]
      k p t j g v n l s
    by simp
qed

end
